theory Spec2Isabelle
  imports Complex_Main "HOL-Library.Log_Nat"
begin

section \<open>Numbers\<close>

text \<open>
  The program computes with IEEE doubles (Python \<open>float\<close>, \<open>numpy.float64\<close>) and uses
  \<open>nan\<close> for "no value yet". A number of the model is NaN, a real number or one of the
  two infinities. The arithmetic on real numbers is exact: rounding, overflow and the sign
  of zero are outside this model (the section on double precision rounds, for the bands).
  Every arithmetic operation gives NaN as soon as one operand is NaN, every ordered
  comparison with NaN is false, and \<open>!=\<close> with NaN is true.
\<close>

datatype fl = NaN | Fin real | PInf | NInf

fun fadd :: "fl \<Rightarrow> fl \<Rightarrow> fl" where
  "fadd (Fin x) (Fin y) = Fin (x + y)"
| "fadd NaN _ = NaN"
| "fadd _ NaN = NaN"
| "fadd PInf NInf = NaN"
| "fadd NInf PInf = NaN"
| "fadd PInf _ = PInf"
| "fadd _ PInf = PInf"
| "fadd NInf _ = NInf"
| "fadd _ NInf = NInf"

fun fsub :: "fl \<Rightarrow> fl \<Rightarrow> fl" where
  "fsub (Fin x) (Fin y) = Fin (x - y)"
| "fsub NaN _ = NaN"
| "fsub _ NaN = NaN"
| "fsub PInf PInf = NaN"
| "fsub NInf NInf = NaN"
| "fsub PInf _ = PInf"
| "fsub _ NInf = PInf"
| "fsub NInf _ = NInf"
| "fsub _ PInf = NInf"

fun fmul :: "fl \<Rightarrow> fl \<Rightarrow> fl" where
  "fmul (Fin x) (Fin y) = Fin (x * y)"
| "fmul NaN _ = NaN"
| "fmul _ NaN = NaN"
| "fmul PInf (Fin y) = (if y = 0 then NaN else if y > 0 then PInf else NInf)"
| "fmul NInf (Fin y) = (if y = 0 then NaN else if y > 0 then NInf else PInf)"
| "fmul (Fin x) PInf = (if x = 0 then NaN else if x > 0 then PInf else NInf)"
| "fmul (Fin x) NInf = (if x = 0 then NaN else if x > 0 then NInf else PInf)"
| "fmul PInf PInf = PInf"
| "fmul NInf NInf = PInf"
| "fmul PInf NInf = NInf"
| "fmul NInf PInf = NInf"

text \<open>
  Division of numpy scalars does not raise (the division of Python integers in
  \<open>Cond_EMA\<close> does, and is modelled there): a nonzero number divided by zero is an
  infinity, \<open>0 / 0\<close> is NaN. The zero of the model has no sign and divides as \<open>+0.0\<close>.
  The divisors of the program are the constants 2 and 100, the length of a list in
  \<open>np.mean\<close> and \<open>r\<close> in \<open>abs(h - rfilt_prev) / r\<close> in \<open>rng_filt\<close>, whose dividend is not
  negative and whose quotient is rounded down and multiplied by \<open>r\<close> again: for a zero
  \<open>r\<close> of either sign the product is NaN.
\<close>

fun fdiv :: "fl \<Rightarrow> fl \<Rightarrow> fl" where
  "fdiv (Fin x) (Fin y) =
     (if y = 0 then (if x = 0 then NaN else if x > 0 then PInf else NInf) else Fin (x / y))"
| "fdiv NaN _ = NaN"
| "fdiv _ NaN = NaN"
| "fdiv (Fin x) _ = Fin 0"
| "fdiv PInf (Fin y) = (if y \<ge> 0 then PInf else NInf)"
| "fdiv NInf (Fin y) = (if y \<ge> 0 then NInf else PInf)"
| "fdiv _ _ = NaN"

fun fabs :: "fl \<Rightarrow> fl" where
  "fabs (Fin x) = Fin \<bar>x\<bar>"
| "fabs NaN = NaN"
| "fabs _ = PInf"

fun ffloor :: "fl \<Rightarrow> fl" where
  "ffloor (Fin x) = Fin (of_int \<lfloor>x\<rfloor>)"
| "ffloor a = a"

fun fsqrt :: "fl \<Rightarrow> fl" where
  "fsqrt (Fin x) = (if x < 0 then NaN else Fin (sqrt x))"
| "fsqrt PInf = PInf"
| "fsqrt _ = NaN"

fun flt :: "fl \<Rightarrow> fl \<Rightarrow> bool" where
  "flt (Fin x) (Fin y) = (x < y)"
| "flt NaN _ = False"
| "flt _ NaN = False"
| "flt PInf _ = False"
| "flt _ NInf = False"
| "flt _ _ = True"

fun fle :: "fl \<Rightarrow> fl \<Rightarrow> bool" where
  "fle (Fin x) (Fin y) = (x \<le> y)"
| "fle NaN _ = False"
| "fle _ NaN = False"
| "fle NInf _ = True"
| "fle _ PInf = True"
| "fle _ _ = False"

fun fgt :: "fl \<Rightarrow> fl \<Rightarrow> bool" where
  "fgt a b = flt b a"

fun fge :: "fl \<Rightarrow> fl \<Rightarrow> bool" where
  "fge a b = fle b a"

fun fne :: "fl \<Rightarrow> fl \<Rightarrow> bool" where
  "fne (Fin x) (Fin y) = (x \<noteq> y)"
| "fne PInf PInf = False"
| "fne NInf NInf = False"
| "fne _ _ = True"

definition isnan :: "fl \<Rightarrow> bool" where
  "isnan a = (a = NaN)"

text \<open>Python's \<open>max(a, b, c)\<close>: a later argument replaces the current one when it is greater.\<close>

definition py_max3 :: "fl \<Rightarrow> fl \<Rightarrow> fl \<Rightarrow> fl" where
  "py_max3 a b c = (let m = (if fgt b a then b else a) in if fgt c m then c else m)"

text \<open>\<open>np.mean\<close> of a list: the sum divided by the length.\<close>

definition np_mean :: "fl list \<Rightarrow> fl" where
  "np_mean xs = fdiv (foldl fadd (Fin 0) xs) (Fin (real (length xs)))"

section \<open>Errors, configuration, data frame\<close>

datatype error = ZeroDivisionError | KeyError | IndexError | TypeError

definition bind_err :: "error + 'a \<Rightarrow> ('a \<Rightarrow> error + 'b) \<Rightarrow> error + 'b" where
  "bind_err m f = (case m of Inl e \<Rightarrow> Inl e | Inr x \<Rightarrow> f x)"

text \<open>The constructor's parameters, with the source's names.\<close>

record config =
  f_type :: string
  mov_src :: string
  rng_qty :: real
  rng_scale :: string
  rng_per :: int
  smooth_range :: bool
  smooth_per :: int
  av_vals :: bool
  av_samples :: int

text \<open>
  A pandas DataFrame: its row labels and its named columns. A column holds numbers
  (dtype \<open>float64\<close>, so that a cell is a numpy scalar) or strings. \<open>len(data)\<close> is the
  number of row labels.
\<close>

datatype column = NumCol "fl list" | StrCol "string list"

record dataframe =
  index :: "int list"
  cols :: "string \<rightharpoonup> column"

text \<open>
  \<open>data[c].iloc[i]\<close>. A missing column raises KeyError, a position past the end
  IndexError. A string cell is read without error, but each read of the program is
  followed by arithmetic or an ordered comparison with a number, which raises TypeError.
\<close>

definition iloc :: "dataframe \<Rightarrow> string \<Rightarrow> nat \<Rightarrow> error + fl" where
  "iloc df c i =
     (case cols df c of
        None \<Rightarrow> Inl KeyError
      | Some (NumCol vs) \<Rightarrow> (if i < length vs then Inr (vs ! i) else Inl IndexError)
      | Some (StrCol vs) \<Rightarrow> (if i < length vs then Inl TypeError else Inl IndexError))"

text \<open>\<open>data[c] = values\<close> and \<open>data.reset_index(drop=True, inplace=True)\<close>.\<close>

definition setitem :: "dataframe \<Rightarrow> string \<Rightarrow> column \<Rightarrow> dataframe" where
  "setitem df c v = df\<lparr>cols := (cols df)(c \<mapsto> v)\<rparr>"

definition reset_index :: "dataframe \<Rightarrow> dataframe" where
  "reset_index df = df\<lparr>index := map int [0..<length (index df)]\<rparr>"

section \<open>The smoothers\<close>

text \<open>\<open>Cond_EMA\<close>: \<open>k = 2 / (n + 1)\<close> on Python numbers raises for \<open>n = -1\<close>.\<close>

definition Cond_EMA :: "fl \<Rightarrow> bool \<Rightarrow> int \<Rightarrow> fl \<Rightarrow> error + fl" where
  "Cond_EMA x cond n prev_ema =
     (if n + 1 = 0 then Inl ZeroDivisionError
      else
        let k = 2 / real_of_int (n + 1) in
        Inr (if cond then
               (if isnan prev_ema then x
                else fadd (fmul (fsub x prev_ema) (Fin k)) prev_ema)
             else prev_ema))"

definition Cond_SMA :: "fl list \<Rightarrow> fl" where
  "Cond_SMA x_list = (if length x_list = 0 then NaN else np_mean x_list)"

definition Stdev :: "fl list \<Rightarrow> fl \<Rightarrow> fl" where
  "Stdev x_list mean =
     (if length x_list = 0 then NaN
      else fsqrt (np_mean (map (\<lambda>x. fmul (fsub x mean) (fsub x mean)) x_list)))"

section \<open>Range size\<close>

text \<open>
  \<open>rng_size\<close> returns the range size and the updated \<open>prev_ac, prev_atr, prev_sd,
  ac_list, sd_list\<close>. The tests \<open>is not None\<close> of the source are always true (the values
  are numbers or NaN, never Python's \<open>None\<close>), so the three products are taken as they are.
\<close>

definition rng_size ::
  "config \<Rightarrow> dataframe \<Rightarrow> fl \<Rightarrow> nat \<Rightarrow> fl \<Rightarrow> fl \<Rightarrow> fl \<Rightarrow> fl list \<Rightarrow> fl list
     \<Rightarrow> error + (fl \<times> fl \<times> fl \<times> fl \<times> fl list \<times> fl list)" where
  "rng_size cfg data x i prev_ac prev_atr prev_sd ac_list sd_list =
     (let qty = rng_qty cfg; n = rng_per cfg; scale = rng_scale cfg in
      bind_err
        (if i = 0 then
           bind_err (iloc data ''high'' i) (\<lambda>hi.
           bind_err (iloc data ''low'' i) (\<lambda>lo. Inr (fsub hi lo)))
         else
           bind_err (iloc data ''high'' i) (\<lambda>hi.
           bind_err (iloc data ''low'' i) (\<lambda>lo.
           bind_err (iloc data ''close'' (i - 1)) (\<lambda>pc.
             Inr (py_max3 (fsub hi lo) (fabs (fsub hi pc)) (fabs (fsub lo pc)))))))
        (\<lambda>tr.
      bind_err (Cond_EMA tr True n prev_atr) (\<lambda>prev_atr'.
      bind_err
        (if i = 0 then Inr (Fin 0)
         else
           bind_err (iloc data ''high'' (i - 1)) (\<lambda>ph.
           bind_err (iloc data ''low'' (i - 1)) (\<lambda>pl.
             Inr (fabs (fsub x (fdiv (fadd ph pl) (Fin 2)))))))
        (\<lambda>ac.
      bind_err (Cond_EMA ac True n prev_ac) (\<lambda>prev_ac'.
      let sd_list1 = sd_list @ [x];
          sd_list' = (if int (length sd_list1) > n then tl sd_list1 else sd_list1);
          mean_sd = Cond_SMA sd_list';
          prev_sd' = Stdev sd_list' mean_sd
      in
      bind_err
        (if scale = ''Pips'' then Inr (Fin (qty * 0.0001))
         else if scale = ''Points'' then Inr (Fin (qty * 1))
         else if scale = ''% of Price'' then
           bind_err (iloc data ''close'' i) (\<lambda>c. Inr (fdiv (fmul c (Fin qty)) (Fin 100)))
         else if scale = ''ATR'' then Inr (fmul (Fin qty) prev_atr')
         else if scale = ''Average Change'' then Inr (fmul (Fin qty) prev_ac')
         else if scale = ''Standard Deviation'' then Inr (fmul (Fin qty) prev_sd')
         else if scale = ''Ticks'' then Inr (Fin (qty * 0.01))
         else Inr (Fin qty))
        (\<lambda>rng_size_value.
      Inr (rng_size_value, prev_ac', prev_atr', prev_sd', ac_list, sd_list')))))))"

section \<open>Range filter\<close>

text \<open>
  \<open>rng_filt\<close> returns \<open>hi_band, lo_band, rng_filt_value\<close> and the updated
  \<open>rfilt_prev, prev_rng_smooth, filt_change_count, filt_change_values\<close>.
\<close>

definition rng_filt ::
  "config \<Rightarrow> fl \<Rightarrow> fl \<Rightarrow> fl \<Rightarrow> nat \<Rightarrow> fl \<Rightarrow> fl \<Rightarrow> nat \<Rightarrow> fl list
     \<Rightarrow> error + (fl \<times> fl \<times> fl \<times> fl \<times> fl \<times> nat \<times> fl list)" where
  "rng_filt cfg h l rng_size_value i rfilt_prev prev_rng_smooth filt_change_count
       filt_change_values =
     bind_err (Cond_EMA rng_size_value True (smooth_per cfg) prev_rng_smooth)
       (\<lambda>prev_rng_smooth'.
      let r = (if smooth_range cfg then prev_rng_smooth' else rng_size_value);
          rfilt =
            (if isnan rfilt_prev then fdiv (fadd h l) (Fin 2)
             else if f_type cfg = ''Type 1'' then
               (if fgt (fsub h r) rfilt_prev then fsub h r
                else if flt (fadd l r) rfilt_prev then fadd l r
                else rfilt_prev)
             else if f_type cfg = ''Type 2'' then
               (if fge h (fadd rfilt_prev r) then
                  fadd rfilt_prev (fmul (ffloor (fdiv (fabs (fsub h rfilt_prev)) r)) r)
                else if fle l (fsub rfilt_prev r) then
                  fsub rfilt_prev (fmul (ffloor (fdiv (fabs (fsub l rfilt_prev)) r)) r)
                else rfilt_prev)
             else rfilt_prev);
          hi_band = fadd rfilt r;
          lo_band = fsub rfilt r
      in
      if av_vals cfg then
        (let filt_changed = fne rfilt rfilt_prev;
             appended = filt_change_values @ [rfilt];
             filt_change_values' =
               (if filt_changed then
                  (if int (length appended) > av_samples cfg then tl appended else appended)
                else filt_change_values);
             filt_change_count' =
               (if filt_changed then filt_change_count + 1 else filt_change_count);
             rng_filt_value =
               (if filt_change_values' \<noteq> [] then np_mean filt_change_values' else rfilt)
         in Inr (fadd rng_filt_value r, fsub rng_filt_value r, rng_filt_value, rfilt,
                 prev_rng_smooth', filt_change_count', filt_change_values'))
      else
        Inr (hi_band, lo_band, rfilt, rfilt, prev_rng_smooth', filt_change_count,
             filt_change_values))"

section \<open>The run\<close>

text \<open>
  The result arrays of the object (\<open>self.filt\<close>, ...) and the local variables of
  \<open>run\<close>. The arrays \<open>fdir\<close>, \<open>upward\<close>, \<open>downward\<close> and
  \<open>external_trend_output\<close> only ever hold the numbers -1, 0 and 1, kept as integers.
\<close>

record run_state =
  filt :: "fl list"
  h_band :: "fl list"
  l_band :: "fl list"
  fdir :: "int list"
  upward :: "int list"
  downward :: "int list"
  filt_color :: "string list"
  bar_color :: "string list"
  external_trend_output :: "int list"
  prev_ac :: fl
  prev_atr :: fl
  prev_sd :: fl
  ac_list :: "fl list"
  sd_list :: "fl list"
  prev_rng_smooth :: fl
  rfilt_prev :: fl
  filt_change_count :: nat
  filt_change_values :: "fl list"

definition init_state :: "nat \<Rightarrow> run_state" where
  "init_state n =
     \<lparr>filt = replicate n (Fin 0), h_band = replicate n (Fin 0),
      l_band = replicate n (Fin 0), fdir = replicate n 0, upward = replicate n 0,
      downward = replicate n 0, filt_color = replicate n ''gray'',
      bar_color = replicate n ''gray'', external_trend_output = replicate n 0,
      prev_ac = NaN, prev_atr = NaN, prev_sd = NaN, ac_list = [], sd_list = [],
      prev_rng_smooth = NaN, rfilt_prev = NaN, filt_change_count = 0,
      filt_change_values = []\<rparr>"

text \<open>The colours of bar \<open>i\<close>, from the arrays as they are after the direction is stored.\<close>

definition colours :: "dataframe \<Rightarrow> nat \<Rightarrow> int \<Rightarrow> int \<Rightarrow> fl \<Rightarrow> error + (string \<times> string)" where
  "colours data i up down filt_i =
     (if up \<noteq> 0 then
        bind_err (iloc data ''close'' i) (\<lambda>c.
          if fgt c filt_i then
            (if i > 0 then
               bind_err (iloc data ''close'' i) (\<lambda>c1.
               bind_err (iloc data ''close'' (i - 1)) (\<lambda>c0.
                 Inr (''#05ff9b'', if fgt c1 c0 then ''#05ff9b'' else ''#00b36b'')))
             else Inr (''#05ff9b'', ''#00b36b''))
          else Inr (''#05ff9b'', ''gray''))
      else if down \<noteq> 0 then
        bind_err (iloc data ''close'' i) (\<lambda>c.
          if flt c filt_i then
            (if i > 0 then
               bind_err (iloc data ''close'' i) (\<lambda>c1.
               bind_err (iloc data ''close'' (i - 1)) (\<lambda>c0.
                 Inr (''#ff0583'', if flt c1 c0 then ''#ff0583'' else ''#b8005d'')))
             else Inr (''#ff0583'', ''#b8005d''))
          else Inr (''#ff0583'', ''gray''))
      else Inr (''gray'', ''gray''))"

text \<open>The movement source of bar \<open>i\<close>: \<open>h_val\<close> and \<open>l_val\<close>.\<close>

definition movement_source :: "config \<Rightarrow> dataframe \<Rightarrow> nat \<Rightarrow> error + (fl \<times> fl)" where
  "movement_source cfg data i =
     (if mov_src cfg = ''Wicks'' then
        bind_err (iloc data ''high'' i) (\<lambda>hv.
        bind_err (iloc data ''low'' i) (\<lambda>lv. Inr (hv, lv)))
      else
        bind_err (iloc data ''close'' i) (\<lambda>hv.
        bind_err (iloc data ''close'' i) (\<lambda>lv. Inr (hv, lv))))"

text \<open>One pass of the loop body of \<open>run\<close>, for the index \<open>i\<close>.\<close>

definition loop_body :: "config \<Rightarrow> dataframe \<Rightarrow> nat \<Rightarrow> run_state \<Rightarrow> error + run_state" where
  "loop_body cfg data i s =
     bind_err (movement_source cfg data i)
       (\<lambda>(h_val, l_val).
     let x = fdiv (fadd h_val l_val) (Fin 2) in
     bind_err (rng_size cfg data x i (prev_ac s) (prev_atr s) (prev_sd s) (ac_list s) (sd_list s))
       (\<lambda>(rng_size_value, prev_ac', prev_atr', prev_sd', ac_list', sd_list').
     bind_err (rng_filt cfg h_val l_val rng_size_value i (rfilt_prev s) (prev_rng_smooth s)
                 (filt_change_count s) (filt_change_values s))
       (\<lambda>(h_band_i, l_band_i, filt_i, rfilt_prev', prev_rng_smooth', filt_change_count',
           filt_change_values').
     let h_band' = (h_band s)[i := h_band_i];
         l_band' = (l_band s)[i := l_band_i];
         filt' = (filt s)[i := filt_i];
         d = (if i = 0 then 0
              else if fgt (filt' ! i) (filt' ! (i - 1)) then 1
              else if flt (filt' ! i) (filt' ! (i - 1)) then - 1
              else fdir s ! (i - 1));
         fdir' = (fdir s)[i := d];
         up = (if fdir' ! i = 1 then 1 else 0);
         down = (if fdir' ! i = - 1 then 1 else 0)
     in
     bind_err (colours data i up down (filt' ! i)) (\<lambda>(fc, bc).
       Inr (s\<lparr>filt := filt', h_band := h_band', l_band := l_band', fdir := fdir',
               upward := (upward s)[i := up], downward := (downward s)[i := down],
               filt_color := (filt_color s)[i := fc], bar_color := (bar_color s)[i := bc],
               external_trend_output := (external_trend_output s)[i := fdir' ! i],
               prev_ac := prev_ac', prev_atr := prev_atr', prev_sd := prev_sd',
               ac_list := ac_list', sd_list := sd_list',
               prev_rng_smooth := prev_rng_smooth', rfilt_prev := rfilt_prev',
               filt_change_count := filt_change_count',
               filt_change_values := filt_change_values'\<rparr>)))))"

text \<open>
  \<open>run_loop cfg data n k\<close> is the state after the passes \<open>i = 0, ..., k - 1\<close> of
  \<open>for i in range(n)\<close>; the loop itself is \<open>run_loop cfg data n n\<close>.
\<close>

fun run_loop :: "config \<Rightarrow> dataframe \<Rightarrow> nat \<Rightarrow> nat \<Rightarrow> error + run_state" where
  "run_loop cfg data n 0 = Inr (init_state n)"
| "run_loop cfg data n (Suc k) = bind_err (run_loop cfg data n k) (loop_body cfg data k)"

text \<open>
  \<open>run\<close>: the loop, then the nine result columns stored in the caller's frame. The
  result is the object's state and the frame.
\<close>

definition num_col :: "int list \<Rightarrow> column" where
  "num_col ds = NumCol (map (\<lambda>d. Fin (real_of_int d)) ds)"

definition run :: "config \<Rightarrow> dataframe \<Rightarrow> error + (run_state \<times> dataframe)" where
  "run cfg data =
     (let n = length (index data) in
      bind_err (run_loop cfg data n n) (\<lambda>s.
        let d1 = setitem data ''filt'' (NumCol (filt s));
            d2 = setitem d1 ''h_band'' (NumCol (h_band s));
            d3 = setitem d2 ''l_band'' (NumCol (l_band s));
            d4 = setitem d3 ''fdir'' (num_col (fdir s));
            d5 = setitem d4 ''upward'' (num_col (upward s));
            d6 = setitem d5 ''downward'' (num_col (downward s));
            d7 = setitem d6 ''filt_color'' (StrCol (filt_color s));
            d8 = setitem d7 ''bar_color'' (StrCol (bar_color s));
            d9 = setitem d8 ''external_trend_output'' (num_col (external_trend_output s))
        in Inr (s, d9)))"

text \<open>
  \<open>RangeFilter(data, ...).run()\<close>: the constructor keeps the caller's frame and resets
  its row labels in place.
\<close>

definition RangeFilter_run :: "config \<Rightarrow> dataframe \<Rightarrow> error + (run_state \<times> dataframe)" where
  "RangeFilter_run cfg data = run cfg (reset_index data)"

section \<open>The bands in double precision\<close>

text \<open>
  A finite double is \<open>m * 2 ^ e\<close> for integers \<open>m\<close> and \<open>e\<close> with \<open>|m| < 2 ^ 53\<close>; the
  pair \<open>(m, e)\<close> stands for it (exponent range, subnormal numbers and overflow are left
  out). The sum of two doubles is computed exactly and rounded to 53 bits, to the nearer
  neighbour and to the even one in a tie, as IEEE 754 addition does.
\<close>

type_synonym f64 = "int \<times> int"

definition f64_round :: "int \<Rightarrow> int \<Rightarrow> f64" where
  "f64_round m e =
     (let k = bitlen \<bar>m\<bar> - 53 in
      if k \<le> 0 then (m, e)
      else
        let q = m div 2 ^ nat k; r = m mod 2 ^ nat k; half = 2 ^ nat (k - 1) in
        (if r > half \<or> (r = half \<and> odd q) then q + 1 else q, e + k))"

definition f64_add :: "f64 \<Rightarrow> f64 \<Rightarrow> f64" where
  "f64_add a b =
     (let e = min (snd a) (snd b) in
      f64_round (fst a * 2 ^ nat (snd a - e) + fst b * 2 ^ nat (snd b - e)) e)"

definition f64_sub :: "f64 \<Rightarrow> f64 \<Rightarrow> f64" where
  "f64_sub a b = f64_add a (- fst b, snd b)"

text \<open>Halving a double is exact; \<open>==\<close> compares the values.\<close>

definition f64_half :: "f64 \<Rightarrow> f64" where
  "f64_half a = (fst a, snd a - 1)"

definition f64_eq :: "f64 \<Rightarrow> f64 \<Rightarrow> bool" where
  "f64_eq a b =
     (let e = min (snd a) (snd b) in
      fst a * 2 ^ nat (snd a - e) = fst b * 2 ^ nat (snd b - e))"

text \<open>
  The first bar of \<open>rng_filt\<close> without averaging, on doubles: the seed
  \<open>rfilt = (h + l) / 2\<close>, then \<open>hi_band = rfilt + r\<close> and \<open>lo_band = rfilt - r\<close>; the
  result is \<open>hi_band, lo_band, rng_filt_value\<close>.
\<close>

definition first_bar_f64 :: "f64 \<Rightarrow> f64 \<Rightarrow> f64 \<Rightarrow> f64 \<times> f64 \<times> f64" where
  "first_bar_f64 h l r =
     (let rfilt = f64_half (f64_add h l);
          hi_band = f64_add rfilt r;
          lo_band = f64_sub rfilt r
      in (hi_band, lo_band, rfilt))"

text \<open>The doubles that Python writes \<open>0.1\<close> and \<open>0.2\<close>.\<close>

definition d0_1 :: f64 where
  "d0_1 = (3602879701896397, - 55)"

definition d0_2 :: f64 where
  "d0_2 = (3602879701896397, - 54)"

section \<open>Well-formed frames and example inputs\<close>

text \<open>
  The frames the constructor's docstring asks for hold the price columns as numbers, one
  per row. The program reads \<open>high\<close>, \<open>low\<close> and \<open>close\<close> only.
\<close>

definition has_prices :: "dataframe \<Rightarrow> bool" where
  "has_prices df =
     list_all (\<lambda>c. case cols df c of
                       Some (NumCol vs) \<Rightarrow> length vs = length (index df)
                     | _ \<Rightarrow> False)
       [''high'', ''low'', ''close'']"

definition ex_cfg :: config where
  "ex_cfg =
     \<lparr>f_type = ''Type 1'', mov_src = ''Wicks'', rng_qty = 1, rng_scale = ''Absolute'',
      rng_per = 14, smooth_range = False, smooth_per = 27, av_vals = False,
      av_samples = 2\<rparr>"

text \<open>The same with averaging over two changes, and with windows of one entry.\<close>

definition av_cfg :: config where
  "av_cfg = ex_cfg\<lparr>av_vals := True\<rparr>"

definition win_cfg :: config where
  "win_cfg = ex_cfg\<lparr>rng_per := 1, av_vals := True, av_samples := 1\<rparr>"

definition mk_frame :: "fl list \<Rightarrow> fl list \<Rightarrow> fl list \<Rightarrow> fl list \<Rightarrow> dataframe" where
  "mk_frame os hs ls cs =
     \<lparr>index = map int [0..<length cs],
      cols = [''open'' \<mapsto> NumCol os, ''high'' \<mapsto> NumCol hs, ''low'' \<mapsto> NumCol ls,
              ''close'' \<mapsto> NumCol cs]\<rparr>"

text \<open>
  A bar followed by an upward gap; one bar; one bar with a NaN high; one bar with an
  infinite high; no bar.
\<close>

definition gap_frame :: dataframe where
  "gap_frame =
     mk_frame [Fin 100, Fin 109] [Fin 101, Fin 110] [Fin 99, Fin 108] [Fin 100, Fin 109]"

definition one_frame :: dataframe where
  "one_frame = mk_frame [Fin 100] [Fin 101] [Fin 99] [Fin 100]"

definition nan_frame :: dataframe where
  "nan_frame = mk_frame [Fin 100] [NaN] [Fin 99] [Fin 100]"

definition inf_frame :: dataframe where
  "inf_frame = mk_frame [Fin 100] [PInf] [Fin 99] [Fin 100]"

definition empty_frame :: dataframe where
  "empty_frame = mk_frame [] [] [] []"

section \<open>Basic facts\<close>

lemma bind_err_Inr [simp]: "bind_err (Inr x) f = f x"
  by (simp add: bind_err_def)

lemma bind_err_Inl [simp]: "bind_err (Inl e) f = Inl e"
  by (simp add: bind_err_def)

lemma bind_err_eq_Inr: "bind_err m f = Inr y \<longleftrightarrow> (\<exists>x. m = Inr x \<and> f x = Inr y)"
  by (cases m) simp_all

lemma loop_body_Inr:
  assumes "loop_body cfg data i s = Inr s'"
  shows "\<exists>h_val l_val rsv pac patr psd acl sdl hb lb fv rfp prs fcc fcv.
     movement_source cfg data i = Inr (h_val, l_val) \<and>
     rng_size cfg data (fdiv (fadd h_val l_val) (Fin 2)) i (prev_ac s) (prev_atr s) (prev_sd s)
        (ac_list s) (sd_list s) = Inr (rsv, pac, patr, psd, acl, sdl) \<and>
     rng_filt cfg h_val l_val rsv i (rfilt_prev s) (prev_rng_smooth s) (filt_change_count s)
        (filt_change_values s) = Inr (hb, lb, fv, rfp, prs, fcc, fcv) \<and>
     filt s' = (filt s)[i := fv] \<and> h_band s' = (h_band s)[i := hb] \<and>
     l_band s' = (l_band s)[i := lb] \<and>
     fdir s' = (fdir s)[i := (if i = 0 then 0
              else if fgt ((filt s)[i := fv] ! i) ((filt s)[i := fv] ! (i - 1)) then 1
              else if flt ((filt s)[i := fv] ! i) ((filt s)[i := fv] ! (i - 1)) then - 1
              else fdir s ! (i - 1))] \<and>
     upward s' = (upward s)[i := (if fdir s' ! i = 1 then 1 else 0)] \<and>
     downward s' = (downward s)[i := (if fdir s' ! i = - 1 then 1 else 0)] \<and>
     prev_ac s' = pac \<and> prev_atr s' = patr \<and> prev_sd s' = psd \<and> ac_list s' = acl \<and>
     sd_list s' = sdl \<and> prev_rng_smooth s' = prs \<and> rfilt_prev s' = rfp \<and>
     filt_change_count s' = fcc \<and> filt_change_values s' = fcv"
  using assms
  by (clarsimp simp: loop_body_def bind_err_eq_Inr Let_def split: prod.splits
      split del: if_split)

lemma rng_filt_anchor:
  assumes "rng_filt cfg h l rsv i rfp prs fcc fcv = Inr (hb, lb, fv, rfp', prs', fcc', fcv')"
  shows "Cond_EMA rsv True (smooth_per cfg) prs = Inr prs'"
    and "rfp' =
      (let r = (if smooth_range cfg then prs' else rsv) in
       if isnan rfp then fdiv (fadd h l) (Fin 2)
       else if f_type cfg = ''Type 1'' then
         (if fgt (fsub h r) rfp then fsub h r
          else if flt (fadd l r) rfp then fadd l r
          else rfp)
       else if f_type cfg = ''Type 2'' then
         (if fge h (fadd rfp r) then
            fadd rfp (fmul (ffloor (fdiv (fabs (fsub h rfp)) r)) r)
          else if fle l (fsub rfp r) then
            fsub rfp (fmul (ffloor (fdiv (fabs (fsub l rfp)) r)) r)
          else rfp)
       else rfp)"
  using assms
  by (cases "av_vals cfg";
      clarsimp simp: rng_filt_def bind_err_eq_Inr Let_def split del: if_split)+

subsection \<open>The loop: prefixes, array lengths, stored entries\<close>

lemma init_state_lengths:
  "length (filt (init_state n)) = n" "length (h_band (init_state n)) = n"
  "length (l_band (init_state n)) = n" "length (fdir (init_state n)) = n"
  "length (upward (init_state n)) = n" "length (downward (init_state n)) = n"
  by (simp_all add: init_state_def)

lemma loop_body_lengths:
  assumes "loop_body cfg data i s = Inr s'"
  shows "length (filt s') = length (filt s)" "length (h_band s') = length (h_band s)"
    "length (l_band s') = length (l_band s)" "length (fdir s') = length (fdir s)"
    "length (upward s') = length (upward s)" "length (downward s') = length (downward s)"
  using loop_body_Inr[OF assms] by auto

lemma run_loop_Suc_Inr:
  assumes "run_loop cfg data n (Suc k) = Inr s'"
  obtains s where "run_loop cfg data n k = Inr s" "loop_body cfg data k s = Inr s'"
  using assms by (auto simp: bind_err_eq_Inr)

lemma run_loop_lengths:
  assumes "run_loop cfg data n k = Inr s"
  shows "length (filt s) = n \<and> length (h_band s) = n \<and> length (l_band s) = n \<and>
         length (fdir s) = n \<and> length (upward s) = n \<and> length (downward s) = n"
  using assms
proof (induction k arbitrary: s)
  case 0
  then show ?case by (auto simp: init_state_lengths)
next
  case (Suc k)
  from Suc.prems obtain s0 where s0: "run_loop cfg data n k = Inr s0"
    and b: "loop_body cfg data k s0 = Inr s" by (rule run_loop_Suc_Inr)
  from Suc.IH[OF s0] loop_body_lengths[OF b] show ?case by simp
qed

lemma run_loop_prefix:
  assumes "run_loop cfg data n k' = Inr s'" and "k \<le> k'"
  shows "\<exists>s. run_loop cfg data n k = Inr s"
  using assms
proof (induction k' arbitrary: s')
  case 0
  then show ?case by simp
next
  case (Suc k')
  show ?case
  proof (cases "k = Suc k'")
    case True
    with Suc.prems show ?thesis by blast
  next
    case False
    with Suc.prems have le: "k \<le> k'" by simp
    from Suc.prems(1) obtain s0 where "run_loop cfg data n k' = Inr s0"
      by (rule run_loop_Suc_Inr)
    from Suc.IH[OF this le] show ?thesis .
  qed
qed

lemma loop_body_stable:
  assumes "loop_body cfg data i s = Inr s'" and "j \<noteq> i"
  shows "filt s' ! j = filt s ! j" "h_band s' ! j = h_band s ! j"
    "l_band s' ! j = l_band s ! j" "fdir s' ! j = fdir s ! j"
    "upward s' ! j = upward s ! j" "downward s' ! j = downward s ! j"
  using loop_body_Inr[OF assms(1)] assms(2) by auto

lemma run_loop_stable:
  assumes "run_loop cfg data n k' = Inr s'" and "run_loop cfg data n k = Inr s"
    and "k \<le> k'" and "j < k"
  shows "filt s' ! j = filt s ! j \<and> h_band s' ! j = h_band s ! j \<and>
    l_band s' ! j = l_band s ! j \<and> fdir s' ! j = fdir s ! j \<and>
    upward s' ! j = upward s ! j \<and> downward s' ! j = downward s ! j"
  using assms
proof (induction k' arbitrary: s')
  case 0
  then show ?case by simp
next
  case (Suc k')
  show ?case
  proof (cases "k = Suc k'")
    case True
    with Suc.prems show ?thesis by simp
  next
    case False
    with Suc.prems have le: "k \<le> k'" by simp
    from Suc.prems(1) obtain s0 where s0: "run_loop cfg data n k' = Inr s0"
      and b: "loop_body cfg data k' s0 = Inr s'" by (rule run_loop_Suc_Inr)
    have "j \<noteq> k'" using le Suc.prems(4) by simp
    from loop_body_stable[OF b this] Suc.IH[OF s0 Suc.prems(2) le Suc.prems(4)]
    show ?thesis by simp
  qed
qed

lemma run_Inr:
  assumes "run cfg data = Inr (s, data')"
  shows "run_loop cfg data (length (index data)) (length (index data)) = Inr s"
  using assms by (auto simp: run_def Let_def bind_err_eq_Inr)



lemma run_loop_bar:
  assumes "run_loop cfg data n n = Inr s" and "i < n"
  shows "\<exists>si si'. run_loop cfg data n i = Inr si \<and> loop_body cfg data i si = Inr si' \<and>
     run_loop cfg data n (Suc i) = Inr si' \<and>
     filt s ! i = filt si' ! i \<and> h_band s ! i = h_band si' ! i \<and>
     l_band s ! i = l_band si' ! i \<and> fdir s ! i = fdir si' ! i \<and>
     upward s ! i = upward si' ! i \<and> downward s ! i = downward si' ! i \<and>
     (\<forall>j<i. filt s ! j = filt si ! j \<and> fdir s ! j = fdir si ! j)"
proof -
  from assms have le: "Suc i \<le> n" by simp
  from run_loop_prefix[OF assms(1) le] obtain si' where
    si': "run_loop cfg data n (Suc i) = Inr si'" by blast
  then obtain si where si: "run_loop cfg data n i = Inr si"
    and b: "loop_body cfg data i si = Inr si'" by (rule run_loop_Suc_Inr)
  have a: "filt s ! i = filt si' ! i \<and> h_band s ! i = h_band si' ! i \<and>
     l_band s ! i = l_band si' ! i \<and> fdir s ! i = fdir si' ! i \<and>
     upward s ! i = upward si' ! i \<and> downward s ! i = downward si' ! i"
    using run_loop_stable[OF assms(1) si' le, of i] by simp
  have "\<forall>j<i. filt s ! j = filt si ! j \<and> fdir s ! j = fdir si ! j"
    using run_loop_stable[OF assms(1) si] assms(2) by simp
  with si si' b a show ?thesis by blast
qed

lemma fl_order: "fgt a b \<Longrightarrow> \<not> flt a b"
  by (cases a; cases b; simp)

lemma fl_irrefl: "\<not> fgt a a" "\<not> flt a a"
  by (cases a; simp)+

text \<open>Evaluation of the example runs.\<close>

lemmas model_defs = run_def run_loop.simps loop_body_def movement_source_def rng_size_def rng_filt_def
  colours_def Cond_EMA_def Cond_SMA_def Stdev_def np_mean_def py_max3_def iloc_def init_state_def
  setitem_def isnan_def num_col_def Let_def mk_frame_def ex_cfg_def

lemma gap_run:
  "\<not> isl (run ex_cfg gap_frame)"
  "filt (fst (projr (run ex_cfg gap_frame))) = [Fin 100, Fin 109]"
  "fdir (fst (projr (run ex_cfg gap_frame))) = [0, 1]"
  "upward (fst (projr (run ex_cfg gap_frame))) = [0, 1]"
  "downward (fst (projr (run ex_cfg gap_frame))) = [0, 0]"
  by (simp_all add: model_defs gap_frame_def)

section \<open>The two ratchets\<close>

lemma fle_not_fgt: "fle a b \<Longrightarrow> \<not> fgt a b"
  by (cases a; cases b; simp)

lemma fle_not_flt: "fle a b \<Longrightarrow> \<not> flt b a"
  by (cases a; cases b; simp)

text \<open>
  Claim C1. In Ratchet mode (\<open>'Type 1'\<close>), when the previous anchor is defined (not NaN)
  and \<open>h - r \<le> anchor_prev \<le> l + r\<close> for the effective range \<open>r\<close> of the bar (the
  smoothed range when \<open>smooth_range\<close> is set, the raw range size otherwise), the anchor
  that \<open>rng_filt\<close> hands on to the next bar is the previous anchor again.
\<close>

theorem ratchet_containment:
  assumes "f_type cfg = ''Type 1''"
    and "\<not> isnan rfp"
    and "rng_filt cfg h l rsv i rfp prs fcc fcv = Inr (hb, lb, fv, rfp', prs', fcc', fcv')"
    and "r = (if smooth_range cfg then prs' else rsv)"
    and "fle (fsub h r) rfp"
    and "fle rfp (fadd l r)"
  shows "rfp' = rfp"
proof -
  have "\<not> fgt (fsub h r) rfp"
    using assms(5) by (rule fle_not_fgt)
  moreover have "\<not> flt (fadd l r) rfp"
    using assms(6) by (rule fle_not_flt)
  ultimately show ?thesis
    using rng_filt_anchor(2)[OF assms(3)] assms(1,2,4)
    by (simp add: Let_def del: fgt.simps)
qed

theorem ratchet_containment_witness:
  "f_type ex_cfg = ''Type 1'' \<and> \<not> isnan (Fin 100) \<and>
   rng_filt ex_cfg (Fin 101) (Fin 99) (Fin 1) 1 (Fin 100) (Fin 1) 1 []
     = Inr (Fin 101, Fin 99, Fin 100, Fin 100, Fin 1, 1, []) \<and>
   fle (fsub (Fin 101) (Fin 1)) (Fin 100) \<and>
   fle (Fin 100) (fadd (Fin 99) (Fin 1))"
proof -
  have c: "f_type ex_cfg = ''Type 1''"
    by (simp add: ex_cfg_def)
  have n: "\<not> isnan (Fin 100)"
    by (simp add: isnan_def)
  have e: "rng_filt ex_cfg (Fin 101) (Fin 99) (Fin 1) 1 (Fin 100) (Fin 1) 1 []
     = Inr (Fin 101, Fin 99, Fin 100, Fin 100, Fin 1, 1, [])"
    by (simp add: rng_filt_def ex_cfg_def Cond_EMA_def isnan_def Let_def)
  have r: "Fin 1 = (if smooth_range ex_cfg then Fin 1 else Fin 1)"
    by simp
  have lo: "fle (fsub (Fin 101) (Fin 1)) (Fin 100)"
    by simp
  have hi: "fle (Fin 100) (fadd (Fin 99) (Fin 1))"
    by simp
  from ratchet_containment [OF c n e r lo hi] c n e lo hi show ?thesis
    by simp
qed



section \<open>Trend direction\<close>

text \<open>
  Claim C4. For every run and every bar \<open>i\<close>: the direction of bar 0 is 0; for
  \<open>i > 0\<close> it is 1 when \<open>filt[i] > filt[i-1]\<close>, -1 when \<open>filt[i] < filt[i-1]\<close> and
  the direction of bar \<open>i - 1\<close> when the two filter values are equal; \<open>upward[i]\<close> is
  set exactly when the direction is 1 and \<open>downward[i]\<close> exactly when it is -1.
\<close>

theorem direction_classification:
  assumes "run cfg data = Inr (s, data')" and "i < length (index data)"
  shows "(i = 0 \<longrightarrow> fdir s ! i = 0) \<and>
    (0 < i \<longrightarrow>
       (fgt (filt s ! i) (filt s ! (i - 1)) \<longrightarrow> fdir s ! i = 1) \<and>
       (flt (filt s ! i) (filt s ! (i - 1)) \<longrightarrow> fdir s ! i = - 1) \<and>
       (filt s ! i = filt s ! (i - 1) \<longrightarrow> fdir s ! i = fdir s ! (i - 1))) \<and>
    ((upward s ! i \<noteq> 0) = (fdir s ! i = 1)) \<and>
    ((downward s ! i \<noteq> 0) = (fdir s ! i = - 1))"
proof -
  let ?n = "length (index data)"
  have rl: "run_loop cfg data ?n ?n = Inr s" using assms(1) by (rule run_Inr)
  from run_loop_bar[OF rl assms(2)] obtain si si' where
    si: "run_loop cfg data ?n i = Inr si" and b: "loop_body cfg data i si = Inr si'"
    and cur: "filt s ! i = filt si' ! i" "fdir s ! i = fdir si' ! i"
      "upward s ! i = upward si' ! i" "downward s ! i = downward si' ! i"
    and old: "\<forall>j<i. filt s ! j = filt si ! j \<and> fdir s ! j = fdir si ! j"
    by blast
  from run_loop_lengths[OF si] assms(2) have len: "i < length (filt si)" "i < length (fdir si)"
    "i < length (upward si)" "i < length (downward si)" by simp_all
  from loop_body_Inr[OF b] obtain fv where
    f: "filt si' = (filt si)[i := fv]"
    and d: "fdir si' = (fdir si)[i := (if i = 0 then 0
              else if fgt ((filt si)[i := fv] ! i) ((filt si)[i := fv] ! (i - 1)) then 1
              else if flt ((filt si)[i := fv] ! i) ((filt si)[i := fv] ! (i - 1)) then - 1
              else fdir si ! (i - 1))]"
    and u: "upward si' = (upward si)[i := (if fdir si' ! i = 1 then 1 else 0)]"
    and w: "downward si' = (downward si)[i := (if fdir si' ! i = - 1 then 1 else 0)]"
    by blast
  have fi: "filt s ! i = fv" using cur(1) f len(1) by simp
  have di: "fdir s ! i = (if i = 0 then 0
              else if fgt fv (filt si ! (i - 1)) then 1
              else if flt fv (filt si ! (i - 1)) then - 1
              else fdir si ! (i - 1))"
    using cur(2) d len by (simp split del: if_split cong: if_cong) 
  have prev: "0 < i \<Longrightarrow> filt s ! (i - 1) = filt si ! (i - 1) \<and> fdir s ! (i - 1) = fdir si ! (i - 1)"
    using old by simp
  have ui: "upward s ! i = (if fdir s ! i = 1 then 1 else 0)"
    using cur(2,3) u len by simp
  have wi: "downward s ! i = (if fdir s ! i = - 1 then 1 else 0)"
    using cur(2,4) w len by simp
  show ?thesis
    using fi di prev ui wi fl_order[of fv "filt si ! (i - 1)"] fl_irrefl[of fv]
    by (auto split: if_splits)
qed

theorem direction_classification_witness:
  "\<not> isl (run ex_cfg gap_frame) \<and> (1::nat) < length (index gap_frame) \<and>
   fgt (filt (fst (projr (run ex_cfg gap_frame))) ! 1)
       (filt (fst (projr (run ex_cfg gap_frame))) ! (1 - 1)) \<and>
   fdir (fst (projr (run ex_cfg gap_frame))) ! 1 = 1 \<and>
   upward (fst (projr (run ex_cfg gap_frame))) ! 1 \<noteq> 0"
proof -
  have r: "run ex_cfg gap_frame = Inr (fst (projr (run ex_cfg gap_frame)), snd (projr (run ex_cfg gap_frame)))"
    using gap_run(1) by (cases "run ex_cfg gap_frame") simp_all
  have i: "(1::nat) < length (index gap_frame)"
    by (simp add: gap_frame_def mk_frame_def)
  from direction_classification [OF r i] gap_run i show ?thesis
    by simp
qed

section \<open>Runs that raise no error\<close>

lemma isl_bind_err: "isl (bind_err m f) = (isl m \<or> isl (f (projr m)))"
  by (cases m) simp_all

lemma not_isl_Inr: "\<not> isl m \<Longrightarrow> \<exists>x. m = Inr x"
  by (cases m) simp_all

lemma iloc_ok:
  assumes "has_prices df" and "i < length (index df)"
  shows "\<not> isl (iloc df ''high'' i)" "\<not> isl (iloc df ''low'' i)"
    "\<not> isl (iloc df ''close'' i)"
  using assms
  by (auto simp: has_prices_def iloc_def split: option.splits column.splits)

lemma Cond_EMA_ok: "n \<noteq> - 1 \<Longrightarrow> \<not> isl (Cond_EMA x c n p)"
  by (simp add: Cond_EMA_def Let_def)

lemma movement_source_ok:
  assumes "has_prices data" and "i < length (index data)"
  shows "\<not> isl (movement_source cfg data i)"
  using iloc_ok[OF assms] by (simp add: movement_source_def isl_bind_err)

lemma rng_size_ok:
  assumes "has_prices data" and "i < length (index data)" and "rng_per cfg \<noteq> - 1"
  shows "\<not> isl (rng_size cfg data x i pac patr psd acl sdl)"
proof -
  have "i - 1 < length (index data)" using assms(2) by simp
  from iloc_ok[OF assms(1) this] iloc_ok[OF assms(1,2)] Cond_EMA_ok[OF assms(3)]
  show ?thesis
    by (cases "i = 0") (simp_all add: rng_size_def isl_bind_err Let_def)
qed

lemma rng_filt_ok:
  assumes "smooth_per cfg \<noteq> - 1"
  shows "\<not> isl (rng_filt cfg h l rsv i rfp prs fcc fcv)"
  using Cond_EMA_ok[OF assms] by (simp add: rng_filt_def isl_bind_err Let_def)

lemma colours_ok:
  assumes "has_prices data" and "i < length (index data)"
  shows "\<not> isl (colours data i up down f)"
proof -
  have "i - 1 < length (index data)" using assms(2) by simp
  from iloc_ok[OF assms(1) this] iloc_ok[OF assms(1,2)]
  show ?thesis
    by (cases "i = 0") (simp_all add: colours_def isl_bind_err)
qed

lemma loop_body_ok:
  assumes "has_prices data" and "i < length (index data)" and "rng_per cfg \<noteq> - 1"
    and "smooth_per cfg \<noteq> - 1"
  shows "\<not> isl (loop_body cfg data i s)"
  using movement_source_ok[OF assms(1,2)] rng_size_ok[OF assms(1,2,3)]
    rng_filt_ok[OF assms(4)] colours_ok[OF assms(1,2)]
  by (simp add: loop_body_def isl_bind_err Let_def split_beta)


lemma run_loop_ok:
  assumes "has_prices data" and "rng_per cfg \<noteq> - 1" and "smooth_per cfg \<noteq> - 1"
    and "k \<le> length (index data)"
  shows "\<not> isl (run_loop cfg data n k)"
  using assms(4)
proof (induction k)
  case 0
  then show ?case by simp
next
  case (Suc k)
  then have "k < length (index data)" by simp
  from loop_body_ok[OF assms(1) this assms(2,3)] Suc show ?case
    by (simp add: isl_bind_err)
qed

lemma run_isl: "isl (run cfg data) = isl (run_loop cfg data (length (index data)) (length (index data)))"
  by (simp add: run_def Let_def isl_bind_err)

lemma run_ok:
  assumes "has_prices data" and "rng_per cfg \<noteq> - 1" and "smooth_per cfg \<noteq> - 1"
  shows "\<not> isl (run cfg data)"
  using run_loop_ok[OF assms, of "length (index data)"] by (simp add: run_isl)

lemma run_empty:
  assumes "length (index data) = 0"
  shows "\<not> isl (run cfg data)"
  using assms by (simp add: run_isl)

lemma rng_filt_seed:
  assumes "rng_filt cfg h l rsv i NaN prs fcc fcv = Inr (hb, lb, fv, rfp', prs', fcc', fcv')"
  shows "rfp' = fdiv (fadd h l) (Fin 2)" and "\<not> av_vals cfg \<Longrightarrow> fv = fdiv (fadd h l) (Fin 2)"
  using assms
  by (cases "av_vals cfg";
      clarsimp simp: rng_filt_def bind_err_eq_Inr Let_def isnan_def split del: if_split)+

section \<open>The first bar\<close>

lemma one_run:
  "filt (fst (projr (run ex_cfg one_frame))) = [Fin 100]"
  "fdir (fst (projr (run ex_cfg one_frame))) = [0]"
  by (simp_all add: model_defs one_frame_def)

text \<open>
  Claim C5. On a non-empty input, with \<open>mov_src = 'Wicks'\<close> and without averaging, the
  run returns, the filter value of bar 0 is \<open>(high[0] + low[0]) / 2\<close> and the direction
  of bar 0 is 0. The frame holds its price columns as numbers and the two periods are not
  -1 (a period of -1 makes \<open>Cond_EMA\<close> divide by zero).
\<close>

theorem first_bar_seed:
  assumes "mov_src cfg = ''Wicks''" and "\<not> av_vals cfg"
    and "has_prices data" and "0 < length (index data)"
    and "rng_per cfg \<noteq> - 1" and "smooth_per cfg \<noteq> - 1"
  shows "\<exists>s data' h0 l0. run cfg data = Inr (s, data') \<and>
     iloc data ''high'' 0 = Inr h0 \<and> iloc data ''low'' 0 = Inr l0 \<and>
     filt s ! 0 = fdiv (fadd h0 l0) (Fin 2) \<and> fdir s ! 0 = 0"
proof -
  let ?n = "length (index data)"
  from run_ok[OF assms(3,5,6)] obtain s data' where r: "run cfg data = Inr (s, data')"
    by (metis not_isl_Inr surj_pair)
  have rl: "run_loop cfg data ?n ?n = Inr s" using r by (rule run_Inr)
  from run_loop_bar[OF rl assms(4)] obtain si si' where
    si: "run_loop cfg data ?n 0 = Inr si" and b: "loop_body cfg data 0 si = Inr si'"
    and cur: "filt s ! 0 = filt si' ! 0" "fdir s ! 0 = fdir si' ! 0"
    by blast
  have init: "si = init_state ?n" using si by simp
  have len: "0 < length (filt si)" "0 < length (fdir si)"
    using init assms(4) by (simp_all add: init_state_def)
  have np: "rfilt_prev si = NaN" using init by (simp add: init_state_def)
  from loop_body_Inr[OF b] obtain h l rsv hb lb fv rfp prs fcc fcv where
    m: "movement_source cfg data 0 = Inr (h, l)"
    and f: "rng_filt cfg h l rsv 0 (rfilt_prev si) (prev_rng_smooth si) (filt_change_count si)
        (filt_change_values si) = Inr (hb, lb, fv, rfp, prs, fcc, fcv)"
    and fs: "filt si' = (filt si)[0 := fv]"
    and ds: "fdir si' = (fdir si)[0 := (if (0::nat) = 0 then 0
              else if fgt ((filt si)[0 := fv] ! 0) ((filt si)[0 := fv] ! (0 - 1)) then 1
              else if flt ((filt si)[0 := fv] ! 0) ((filt si)[0 := fv] ! (0 - 1)) then - 1
              else fdir si ! (0 - 1))]"
    by blast
  from m assms(1) have hl: "iloc data ''high'' 0 = Inr h" "iloc data ''low'' 0 = Inr l"
    by (auto simp: movement_source_def bind_err_eq_Inr)
  have "fv = fdiv (fadd h l) (Fin 2)"
    using rng_filt_seed(2)[OF f[unfolded np] assms(2)] .
  then have "filt s ! 0 = fdiv (fadd h l) (Fin 2)"
    using cur(1) fs len by simp
  moreover have "fdir s ! 0 = 0" using cur(2) ds len by simp
  ultimately show ?thesis using r hl by blast
qed

theorem first_bar_seed_witness:
  "mov_src ex_cfg = ''Wicks'' \<and> \<not> av_vals ex_cfg \<and> has_prices one_frame \<and>
   0 < length (index one_frame) \<and> rng_per ex_cfg \<noteq> - 1 \<and> smooth_per ex_cfg \<noteq> - 1 \<and>
   filt (fst (projr (run ex_cfg one_frame))) ! 0 = fdiv (fadd (Fin 101) (Fin 99)) (Fin 2) \<and>
   fdir (fst (projr (run ex_cfg one_frame))) ! 0 = 0"
proof -
  have c: "mov_src ex_cfg = ''Wicks''" "\<not> av_vals ex_cfg" "rng_per ex_cfg \<noteq> - 1"
    "smooth_per ex_cfg \<noteq> - 1"
    by (simp_all add: ex_cfg_def)
  have d: "has_prices one_frame" "0 < length (index one_frame)"
    by (simp_all add: has_prices_def one_frame_def mk_frame_def)
  from first_bar_seed [OF c(1,2) d c(3,4)] c d one_run show ?thesis
    by simp
qed

section \<open>The bands\<close>

lemma rng_filt_bands:
  assumes "rng_filt cfg h l rsv i rfp prs fcc fcv = Inr (hb, lb, fv, rfp', prs', fcc', fcv')"
  shows "hb = fadd fv (if smooth_range cfg then prs' else rsv)"
    and "lb = fsub fv (if smooth_range cfg then prs' else rsv)"
  using assms
  by (cases "av_vals cfg"; cases "smooth_range cfg";
      clarsimp simp: rng_filt_def bind_err_eq_Inr Let_def split del: if_split)+

lemma gap_bands:
  "h_band (fst (projr (run ex_cfg gap_frame))) = [Fin 101, Fin 110]"
  "l_band (fst (projr (run ex_cfg gap_frame))) = [Fin 99, Fin 108]"
  by (simp_all add: model_defs gap_frame_def)

text \<open>
  Claim C3 says that, the bands being \<open>filt + r\<close> and \<open>filt - r\<close>, the two offsets
  \<open>h_band[i] - filt[i]\<close> and \<open>filt[i] - l_band[i]\<close> are equal. On doubles they need not
  be. One bar with \<open>high = low = 0.1\<close>, \<open>mov_src = 'Wicks'\<close>, \<open>rng_scale = 'Absolute'\<close>,
  \<open>rng_qty = 0.2\<close> and no smoothing or averaging has \<open>filt = 0.1\<close> and \<open>r = 0.2\<close>: the
  sum \<open>0.1 + 0.2\<close> is rounded up to \<open>0.30000000000000004\<close>, the difference \<open>0.1 - 0.2\<close> is
  exactly \<open>-0.1\<close>, and the offsets are \<open>0.20000000000000004\<close> and \<open>0.2\<close>.
\<close>

theorem band_symmetry_counterexample:
  "first_bar_f64 d0_1 d0_1 d0_2
     = ((5404319552844596, - 54), (- 7205759403792794, - 56), (7205759403792794, - 56)) \<and>
   f64_eq (7205759403792794, - 56) d0_1 \<and>
   f64_sub (fst (first_bar_f64 d0_1 d0_1 d0_2)) (snd (snd (first_bar_f64 d0_1 d0_1 d0_2)))
     = (7205759403792795, - 55) \<and>
   f64_sub (snd (snd (first_bar_f64 d0_1 d0_1 d0_2))) (fst (snd (first_bar_f64 d0_1 d0_1 d0_2)))
     = (7205759403792794, - 55) \<and>
   \<not> f64_eq
     (f64_sub (fst (first_bar_f64 d0_1 d0_1 d0_2)) (snd (snd (first_bar_f64 d0_1 d0_1 d0_2))))
     (f64_sub (snd (snd (first_bar_f64 d0_1 d0_1 d0_2))) (fst (snd (first_bar_f64 d0_1 d0_1 d0_2))))"
  by code_simp

text \<open>
  Claim C3 as amended. For every bar \<open>i\<close> of every run, with or without averaging,
  \<open>h_band[i]\<close> is the sum \<open>filt[i] + r\<close> and \<open>l_band[i]\<close> the difference \<open>filt[i] - r\<close>
  that the program computes, where \<open>r\<close> is the effective range of bar \<open>i\<close>: the range
  size \<open>rng_size\<close> returns for the bar, or its smoothed value (\<open>Cond_EMA\<close> with
  \<open>smooth_per\<close>) when \<open>smooth_range\<close> is set. Nothing is said of the two offsets.
\<close>

theorem band_offsets:
  assumes "run cfg data = Inr (s, data')" and "i < length (index data)"
  shows "\<exists>si si' h l rsv pac patr psd acl sdl r.
     run_loop cfg data (length (index data)) i = Inr si \<and>
     run_loop cfg data (length (index data)) (Suc i) = Inr si' \<and>
     movement_source cfg data i = Inr (h, l) \<and>
     rng_size cfg data (fdiv (fadd h l) (Fin 2)) i (prev_ac si) (prev_atr si) (prev_sd si)
        (ac_list si) (sd_list si) = Inr (rsv, pac, patr, psd, acl, sdl) \<and>
     Cond_EMA rsv True (smooth_per cfg) (prev_rng_smooth si) = Inr (prev_rng_smooth si') \<and>
     r = (if smooth_range cfg then prev_rng_smooth si' else rsv) \<and>
     h_band s ! i = fadd (filt s ! i) r \<and>
     l_band s ! i = fsub (filt s ! i) r"
proof -
  let ?n = "length (index data)"
  have rl: "run_loop cfg data ?n ?n = Inr s" using assms(1) by (rule run_Inr)
  from run_loop_bar[OF rl assms(2)] obtain si si' where
    si: "run_loop cfg data ?n i = Inr si" and b: "loop_body cfg data i si = Inr si'"
    and si': "run_loop cfg data ?n (Suc i) = Inr si'"
    and cur: "filt s ! i = filt si' ! i" "h_band s ! i = h_band si' ! i"
      "l_band s ! i = l_band si' ! i"
    by blast
  from run_loop_lengths[OF si] assms(2) have len: "i < length (filt si)"
    "i < length (h_band si)" "i < length (l_band si)" by simp_all
  from loop_body_Inr[OF b] obtain h l rsv pac patr psd acl sdl hb lb fv rfp prs fcc fcv where
    m: "movement_source cfg data i = Inr (h, l)"
    and z: "rng_size cfg data (fdiv (fadd h l) (Fin 2)) i (prev_ac si) (prev_atr si)
        (prev_sd si) (ac_list si) (sd_list si) = Inr (rsv, pac, patr, psd, acl, sdl)"
    and f: "rng_filt cfg h l rsv i (rfilt_prev si) (prev_rng_smooth si) (filt_change_count si)
        (filt_change_values si) = Inr (hb, lb, fv, rfp, prs, fcc, fcv)"
    and fs: "filt si' = (filt si)[i := fv]" and hs: "h_band si' = (h_band si)[i := hb]"
    and ls: "l_band si' = (l_band si)[i := lb]" and ps: "prev_rng_smooth si' = prs"
    by blast
  let ?r = "if smooth_range cfg then prev_rng_smooth si' else rsv"
  have e: "Cond_EMA rsv True (smooth_per cfg) (prev_rng_smooth si) = Inr (prev_rng_smooth si')"
    using rng_filt_anchor(1)[OF f] ps by simp
  have fi: "filt s ! i = fv" using cur(1) fs len by simp
  have hi: "h_band s ! i = fadd (filt s ! i) ?r"
    using cur(2) hs len rng_filt_bands(1)[OF f] ps fi by simp
  have li: "l_band s ! i = fsub (filt s ! i) ?r"
    using cur(3) ls len rng_filt_bands(2)[OF f] ps fi by simp
  from si si' m z e hi li show ?thesis by blast
qed

theorem band_offsets_witness:
  "\<not> isl (run ex_cfg gap_frame) \<and> (1::nat) < length (index gap_frame) \<and>
   h_band (fst (projr (run ex_cfg gap_frame))) ! 1 = Fin 110 \<and>
   filt (fst (projr (run ex_cfg gap_frame))) ! 1 = Fin 109 \<and>
   l_band (fst (projr (run ex_cfg gap_frame))) ! 1 = Fin 108 \<and>
   h_band (fst (projr (run ex_cfg gap_frame))) ! 1
     = fadd (filt (fst (projr (run ex_cfg gap_frame))) ! 1) (Fin (rng_qty ex_cfg)) \<and>
   l_band (fst (projr (run ex_cfg gap_frame))) ! 1
     = fsub (filt (fst (projr (run ex_cfg gap_frame))) ! 1) (Fin (rng_qty ex_cfg))"
proof -
  have r: "run ex_cfg gap_frame
      = Inr (fst (projr (run ex_cfg gap_frame)), snd (projr (run ex_cfg gap_frame)))"
    using gap_run(1) by (cases "run ex_cfg gap_frame") simp_all
  have i: "(1::nat) < length (index gap_frame)"
    by (simp add: gap_frame_def mk_frame_def)
  have q: "rng_qty ex_cfg = 1"
    by (simp add: ex_cfg_def)
  from band_offsets [OF r i] gap_run gap_bands i q show ?thesis
    by simp
qed

section \<open>The sliding windows\<close>

lemma rng_filt_window:
  assumes "rng_filt cfg h l rsv i rfp prs fcc fcv = Inr (hb, lb, fv, rfp', prs', fcc', fcv')"
  shows "fcv' = (if av_vals cfg \<and> fne rfp' rfp then
                   (if int (length (fcv @ [rfp'])) > av_samples cfg then tl (fcv @ [rfp'])
                    else fcv @ [rfp'])
                 else fcv)"
    and "fcc' = (if av_vals cfg \<and> fne rfp' rfp then fcc + 1 else fcc)"
    and "fv = (if av_vals cfg \<and> fcv' \<noteq> [] then np_mean fcv' else rfp')"
  using assms
  by (cases "av_vals cfg";
      clarsimp simp: rng_filt_def bind_err_eq_Inr Let_def split del: if_split)+

lemma rng_size_window:
  assumes "rng_size cfg data x i pac patr psd acl sdl = Inr (rsv, pac', patr', psd', acl', sdl')"
  shows "sdl' = (if int (length (sdl @ [x])) > rng_per cfg then tl (sdl @ [x]) else sdl @ [x])"
    and "acl' = acl"
  using assms
  by (clarsimp simp: rng_size_def bind_err_eq_Inr Let_def split del: if_split)+


lemma push_window:
  assumes "int (length w) \<le> c" and "0 < c"
  shows "(if int (length (w @ [x])) > c then tl (w @ [x]) else w @ [x])
           = (if int (length w) = c then tl w @ [x] else w @ [x])"
    and "int (length (if int (length (w @ [x])) > c then tl (w @ [x]) else w @ [x])) \<le> c"
    and "(if int (length (w @ [x])) > c then tl (w @ [x]) else w @ [x]) \<noteq> []"
  using assms by (cases w; auto)+

lemma fne_NaN: "fne a NaN"
  by (cases a) simp_all

lemma loop_body_windows:
  assumes "loop_body cfg data i s = Inr s'"
  shows "\<exists>h l. movement_source cfg data i = Inr (h, l) \<and>
     sd_list s' = (if int (length (sd_list s @ [fdiv (fadd h l) (Fin 2)])) > rng_per cfg
                   then tl (sd_list s @ [fdiv (fadd h l) (Fin 2)])
                   else sd_list s @ [fdiv (fadd h l) (Fin 2)]) \<and>
     (rfilt_prev s = NaN \<longrightarrow> rfilt_prev s' = fdiv (fadd h l) (Fin 2))"
    and "filt_change_values s' =
       (if av_vals cfg \<and> fne (rfilt_prev s') (rfilt_prev s) then
          (if int (length (filt_change_values s @ [rfilt_prev s'])) > av_samples cfg
           then tl (filt_change_values s @ [rfilt_prev s'])
           else filt_change_values s @ [rfilt_prev s'])
        else filt_change_values s)"
    and "filt_change_count s' =
       (if av_vals cfg \<and> fne (rfilt_prev s') (rfilt_prev s) then filt_change_count s + 1
        else filt_change_count s)"
    and "i < length (filt s) \<Longrightarrow> filt s' ! i =
       (if av_vals cfg \<and> filt_change_values s' \<noteq> [] then np_mean (filt_change_values s')
        else rfilt_prev s')"
proof -
  from loop_body_Inr[OF assms] obtain h l rsv pac patr psd acl sdl hb lb fv rfp prs fcc fcv
    where m: "movement_source cfg data i = Inr (h, l)"
    and z: "rng_size cfg data (fdiv (fadd h l) (Fin 2)) i (prev_ac s) (prev_atr s)
        (prev_sd s) (ac_list s) (sd_list s) = Inr (rsv, pac, patr, psd, acl, sdl)"
    and f: "rng_filt cfg h l rsv i (rfilt_prev s) (prev_rng_smooth s) (filt_change_count s)
        (filt_change_values s) = Inr (hb, lb, fv, rfp, prs, fcc, fcv)"
    and fs: "filt s' = (filt s)[i := fv]"
    and e: "sd_list s' = sdl" "rfilt_prev s' = rfp" "filt_change_count s' = fcc"
      "filt_change_values s' = fcv"
    by blast
  have "rfilt_prev s = NaN \<longrightarrow> rfilt_prev s' = fdiv (fadd h l) (Fin 2)"
    using rng_filt_seed(1)[of cfg h l rsv i] f e(2) by auto
  with m rng_size_window(1)[OF z] e(1)
  show "\<exists>h l. movement_source cfg data i = Inr (h, l) \<and>
     sd_list s' = (if int (length (sd_list s @ [fdiv (fadd h l) (Fin 2)])) > rng_per cfg
                   then tl (sd_list s @ [fdiv (fadd h l) (Fin 2)])
                   else sd_list s @ [fdiv (fadd h l) (Fin 2)]) \<and>
     (rfilt_prev s = NaN \<longrightarrow> rfilt_prev s' = fdiv (fadd h l) (Fin 2))"
    by (intro exI[of _ h] exI[of _ l]) simp
  show "filt_change_values s' =
       (if av_vals cfg \<and> fne (rfilt_prev s') (rfilt_prev s) then
          (if int (length (filt_change_values s @ [rfilt_prev s'])) > av_samples cfg
           then tl (filt_change_values s @ [rfilt_prev s'])
           else filt_change_values s @ [rfilt_prev s'])
        else filt_change_values s)"
    using rng_filt_window(1)[OF f] e by simp
  show "filt_change_count s' =
       (if av_vals cfg \<and> fne (rfilt_prev s') (rfilt_prev s) then filt_change_count s + 1
        else filt_change_count s)"
    using rng_filt_window(2)[OF f] e by simp
  show "i < length (filt s) \<Longrightarrow> filt s' ! i =
       (if av_vals cfg \<and> filt_change_values s' \<noteq> [] then np_mean (filt_change_values s')
        else rfilt_prev s')"
    using rng_filt_window(3)[OF f] e fs by simp
qed

lemma run_loop_windows_bounded:
  assumes "run_loop cfg data n k = Inr s" and "0 < rng_per cfg" and "0 < av_samples cfg"
  shows "int (length (sd_list s)) \<le> rng_per cfg \<and>
         int (length (filt_change_values s)) \<le> av_samples cfg"
  using assms(1)
proof (induction k arbitrary: s)
  case 0
  then show ?case using assms(2,3) by (auto simp: init_state_def)
next
  case (Suc k)
  from Suc.prems obtain s0 where s0: "run_loop cfg data n k = Inr s0"
    and b: "loop_body cfg data k s0 = Inr s" by (rule run_loop_Suc_Inr)
  from Suc.IH[OF s0] have ih: "int (length (sd_list s0)) \<le> rng_per cfg"
    "int (length (filt_change_values s0)) \<le> av_samples cfg" by simp_all
  from loop_body_windows(1)[OF b] obtain x where
    sd: "sd_list s = (if int (length (sd_list s0 @ [x])) > rng_per cfg
                   then tl (sd_list s0 @ [x]) else sd_list s0 @ [x])" by blast
  have 1: "int (length (sd_list s)) \<le> rng_per cfg"
    unfolding sd using ih(1) assms(2) by (rule push_window(2))
  have 2: "int (length (filt_change_values s)) \<le> av_samples cfg"
  proof (cases "av_vals cfg \<and> fne (rfilt_prev s) (rfilt_prev s0)")
    case True
    then have "filt_change_values s =
          (if int (length (filt_change_values s0 @ [rfilt_prev s])) > av_samples cfg
           then tl (filt_change_values s0 @ [rfilt_prev s])
           else filt_change_values s0 @ [rfilt_prev s])"
      using loop_body_windows(2)[OF b] by simp
    then show ?thesis using push_window(2)[OF ih(2) assms(3)] by simp
  next
    case False
    have "filt_change_values s = filt_change_values s0"
      using loop_body_windows(2)[OF b] by (simp only: False if_False)
    then show ?thesis using ih(2) by simp
  qed
  from 1 2 show ?case by simp
qed

lemma win_run:
  "\<not> isl (run win_cfg gap_frame)"
  "length (index gap_frame) = Suc (Suc 0)"
  "sd_list (projr (run_loop win_cfg gap_frame (Suc (Suc 0)) (Suc 0))) = [Fin 100]"
  "sd_list (projr (run_loop win_cfg gap_frame (Suc (Suc 0)) (Suc (Suc 0)))) = [Fin 109]"
  "filt_change_values (projr (run_loop win_cfg gap_frame (Suc (Suc 0)) (Suc 0))) = [Fin 100]"
  "filt_change_values (projr (run_loop win_cfg gap_frame (Suc (Suc 0)) (Suc (Suc 0))))
     = [Fin 109]"
  by (simp_all add: model_defs gap_frame_def win_cfg_def)

text \<open>
  Claim C9. With positive \<open>rng_per\<close> and \<open>av_samples\<close>, after any number \<open>k\<close> of
  bars of a run the standard-deviation window \<open>sd_list\<close> holds at most \<open>rng_per\<close>
  entries and the change window \<open>filt_change_values\<close> at most \<open>av_samples\<close>. Bar
  \<open>k\<close> puts its mid-price at the end of \<open>sd_list\<close> and, when averaging is on and the
  anchor changed, the new anchor at the end of \<open>filt_change_values\<close>; a window that
  was full loses its first, oldest entry and keeps the others in order.
\<close>

theorem windows_bounded_fifo:
  assumes "run cfg data = Inr (s, data')" and "k \<le> length (index data)"
    and "0 < rng_per cfg" and "0 < av_samples cfg"
  shows "\<exists>sk. run_loop cfg data (length (index data)) k = Inr sk \<and>
     int (length (sd_list sk)) \<le> rng_per cfg \<and>
     int (length (filt_change_values sk)) \<le> av_samples cfg \<and>
     (k < length (index data) \<longrightarrow>
        (\<exists>sk' h l. run_loop cfg data (length (index data)) (Suc k) = Inr sk' \<and>
           movement_source cfg data k = Inr (h, l) \<and>
           sd_list sk' =
             (if int (length (sd_list sk)) = rng_per cfg
              then tl (sd_list sk) @ [fdiv (fadd h l) (Fin 2)]
              else sd_list sk @ [fdiv (fadd h l) (Fin 2)]) \<and>
           filt_change_values sk' =
             (if av_vals cfg \<and> fne (rfilt_prev sk') (rfilt_prev sk) then
                (if int (length (filt_change_values sk)) = av_samples cfg
                 then tl (filt_change_values sk) @ [rfilt_prev sk']
                 else filt_change_values sk @ [rfilt_prev sk'])
              else filt_change_values sk)))"
proof -
  let ?n = "length (index data)"
  have rl: "run_loop cfg data ?n ?n = Inr s" using assms(1) by (rule run_Inr)
  from run_loop_prefix[OF rl assms(2)] obtain sk where
    sk: "run_loop cfg data ?n k = Inr sk" by blast
  from run_loop_windows_bounded[OF sk assms(3,4)] have
    bd: "int (length (sd_list sk)) \<le> rng_per cfg"
      "int (length (filt_change_values sk)) \<le> av_samples cfg" by simp_all
  have st: "\<exists>sk' h l. run_loop cfg data ?n (Suc k) = Inr sk' \<and>
           movement_source cfg data k = Inr (h, l) \<and>
           sd_list sk' =
             (if int (length (sd_list sk)) = rng_per cfg
              then tl (sd_list sk) @ [fdiv (fadd h l) (Fin 2)]
              else sd_list sk @ [fdiv (fadd h l) (Fin 2)]) \<and>
           filt_change_values sk' =
             (if av_vals cfg \<and> fne (rfilt_prev sk') (rfilt_prev sk) then
                (if int (length (filt_change_values sk)) = av_samples cfg
                 then tl (filt_change_values sk) @ [rfilt_prev sk']
                 else filt_change_values sk @ [rfilt_prev sk'])
              else filt_change_values sk)" if lt: "k < ?n"
  proof -
    from lt have "Suc k \<le> ?n" by simp
    from run_loop_prefix[OF rl this] obtain sk' where
      sk': "run_loop cfg data ?n (Suc k) = Inr sk'" by blast
    with sk have b: "loop_body cfg data k sk = Inr sk'" by simp
    from loop_body_windows(1)[OF b] obtain h l where
      m: "movement_source cfg data k = Inr (h, l)"
      and sd: "sd_list sk' =
         (if int (length (sd_list sk @ [fdiv (fadd h l) (Fin 2)])) > rng_per cfg
          then tl (sd_list sk @ [fdiv (fadd h l) (Fin 2)])
          else sd_list sk @ [fdiv (fadd h l) (Fin 2)])" by blast
    have sd': "sd_list sk' =
             (if int (length (sd_list sk)) = rng_per cfg
              then tl (sd_list sk) @ [fdiv (fadd h l) (Fin 2)]
              else sd_list sk @ [fdiv (fadd h l) (Fin 2)])"
      unfolding sd using bd(1) assms(3) by (rule push_window(1))
    have fc: "filt_change_values sk' =
             (if av_vals cfg \<and> fne (rfilt_prev sk') (rfilt_prev sk) then
                (if int (length (filt_change_values sk)) = av_samples cfg
                 then tl (filt_change_values sk) @ [rfilt_prev sk']
                 else filt_change_values sk @ [rfilt_prev sk'])
              else filt_change_values sk)"
      using loop_body_windows(2)[OF b] push_window(1)[OF bd(2) assms(4), of "rfilt_prev sk'"]
      by simp
    from sk' m sd' fc show ?thesis by blast
  qed
  from sk bd st show ?thesis by blast
qed

theorem windows_bounded_fifo_witness:
  "\<not> isl (run win_cfg gap_frame) \<and> Suc 0 \<le> length (index gap_frame) \<and>
   0 < rng_per win_cfg \<and> 0 < av_samples win_cfg \<and>
   int (length (sd_list (projr (run_loop win_cfg gap_frame (Suc (Suc 0)) (Suc 0)))))
     = rng_per win_cfg \<and>
   sd_list (projr (run_loop win_cfg gap_frame (Suc (Suc 0)) (Suc 0))) = [Fin 100] \<and>
   sd_list (projr (run_loop win_cfg gap_frame (Suc (Suc 0)) (Suc (Suc 0)))) = [Fin 109] \<and>
   filt_change_values (projr (run_loop win_cfg gap_frame (Suc (Suc 0)) (Suc 0))) = [Fin 100] \<and>
   filt_change_values (projr (run_loop win_cfg gap_frame (Suc (Suc 0)) (Suc (Suc 0))))
     = [Fin 109]"
proof -
  have r: "run win_cfg gap_frame
      = Inr (fst (projr (run win_cfg gap_frame)), snd (projr (run win_cfg gap_frame)))"
    using win_run(1) by (cases "run win_cfg gap_frame") simp_all
  have k: "Suc 0 \<le> length (index gap_frame)"
    by (simp add: win_run(2))
  have c: "0 < rng_per win_cfg" "0 < av_samples win_cfg"
    by (simp_all add: win_cfg_def ex_cfg_def)
  have l: "int (length (sd_list (projr (run_loop win_cfg gap_frame (Suc (Suc 0)) (Suc 0)))))
     = rng_per win_cfg"
    by (simp only: win_run(3)) (simp add: win_cfg_def ex_cfg_def)
  from windows_bounded_fifo [OF r k c] win_run k c l show ?thesis
    by (simp del: run_loop.simps)
qed

section \<open>Averaging over filter changes\<close>

lemma run_loop_change_window:
  assumes "run_loop cfg data n k = Inr s" and "av_vals cfg" and "0 < av_samples cfg"
  shows "rfilt_prev s = NaN \<or> filt_change_values s \<noteq> []"
    and "0 < k \<Longrightarrow> filt_change_values s \<noteq> []"
proof -
  have "(rfilt_prev s = NaN \<or> filt_change_values s \<noteq> []) \<and>
        (0 < k \<longrightarrow> filt_change_values s \<noteq> [])"
    using assms(1)
  proof (induction k arbitrary: s)
    case 0
    then show ?case by (auto simp: init_state_def)
  next
    case (Suc k)
    from Suc.prems obtain s0 where s0: "run_loop cfg data n k = Inr s0"
      and b: "loop_body cfg data k s0 = Inr s" by (rule run_loop_Suc_Inr)
    from Suc.IH[OF s0] have ih: "rfilt_prev s0 = NaN \<or> filt_change_values s0 \<noteq> []"
      by simp
    have "filt_change_values s \<noteq> []"
    proof (cases "fne (rfilt_prev s) (rfilt_prev s0)")
      case True
      then have "filt_change_values s =
          (if int (length (filt_change_values s0 @ [rfilt_prev s])) > av_samples cfg
           then tl (filt_change_values s0 @ [rfilt_prev s])
           else filt_change_values s0 @ [rfilt_prev s])"
        using loop_body_windows(2)[OF b] assms(2) by simp
      moreover have "... \<noteq> []"
        using assms(3) by (cases "filt_change_values s0") auto
      ultimately show ?thesis by simp
    next
      case False
      have "rfilt_prev s0 \<noteq> NaN"
      proof
        assume "rfilt_prev s0 = NaN"
        with fne_NaN[of "rfilt_prev s"] False show False by simp
      qed
      with ih have "filt_change_values s0 \<noteq> []" by simp
      moreover have "filt_change_values s = filt_change_values s0"
        using loop_body_windows(2)[OF b] False by simp
      ultimately show ?thesis by simp
    qed
    then show ?case by simp
  qed
  then show "rfilt_prev s = NaN \<or> filt_change_values s \<noteq> []"
    and "0 < k \<Longrightarrow> filt_change_values s \<noteq> []" by simp_all
qed

lemma av_run:
  "\<not> isl (run av_cfg gap_frame)"
  "filt (fst (projr (run av_cfg gap_frame))) = [Fin 100, Fin (209 / 2)]"
  "filt_change_values (projr (run_loop av_cfg gap_frame (Suc (Suc 0)) (Suc (Suc 0))))
     = [Fin 100, Fin 109]"
  "filt_change_values (projr (run_loop av_cfg gap_frame (Suc (Suc 0)) (Suc 0))) = [Fin 100]"
  "filt_change_count (projr (run_loop av_cfg gap_frame (Suc (Suc 0)) (Suc 0))) = 1"
  by (simp_all add: model_defs gap_frame_def av_cfg_def)

text \<open>
  Claim C10. With averaging on (and a positive \<open>av_samples\<close>), the seed of bar 0 counts
  as a filter change: after bar 0 the change window holds exactly the seed and the change
  counter is 1. After every bar \<open>i\<close> the change window is non-empty and \<open>filt[i]\<close> is
  the mean of the window, so the fallback to the raw anchor is never taken.
\<close>

theorem seed_counts_as_change:
  assumes "run cfg data = Inr (s, data')" and "i < length (index data)"
    and "av_vals cfg" and "0 < av_samples cfg"
  shows "\<exists>si'. run_loop cfg data (length (index data)) (Suc i) = Inr si' \<and>
     filt_change_values si' \<noteq> [] \<and>
     filt s ! i = np_mean (filt_change_values si') \<and>
     (i = 0 \<longrightarrow>
        (\<exists>h l. movement_source cfg data 0 = Inr (h, l) \<and>
           filt_change_values si' = [fdiv (fadd h l) (Fin 2)] \<and>
           filt_change_count si' = 1))"
proof -
  let ?n = "length (index data)"
  have rl: "run_loop cfg data ?n ?n = Inr s" using assms(1) by (rule run_Inr)
  from run_loop_bar[OF rl assms(2)] obtain si si' where
    si: "run_loop cfg data ?n i = Inr si" and b: "loop_body cfg data i si = Inr si'"
    and si': "run_loop cfg data ?n (Suc i) = Inr si'"
    and cur: "filt s ! i = filt si' ! i"
    by blast
  from run_loop_lengths[OF si] assms(2) have len: "i < length (filt si)" by simp
  have ne: "filt_change_values si' \<noteq> []"
    using run_loop_change_window(2)[OF si' assms(3,4)] by simp
  have mean: "filt s ! i = np_mean (filt_change_values si')"
    using loop_body_windows(4)[OF b len] cur ne assms(3) by simp
  have first: "\<exists>h l. movement_source cfg data 0 = Inr (h, l) \<and>
           filt_change_values si' = [fdiv (fadd h l) (Fin 2)] \<and>
           filt_change_count si' = 1" if z: "i = 0"
  proof -
    have init: "si = init_state ?n" using si z by simp
    then have st: "rfilt_prev si = NaN" "filt_change_values si = []"
      "filt_change_count si = 0" by (simp_all add: init_state_def)
    from loop_body_windows(1)[OF b] st(1) z obtain h l where
      m: "movement_source cfg data 0 = Inr (h, l)"
      and a: "rfilt_prev si' = fdiv (fadd h l) (Fin 2)" by auto
    have ch: "av_vals cfg \<and> fne (rfilt_prev si') (rfilt_prev si)"
      using assms(3) st(1) fne_NaN by simp
    have w: "filt_change_values si' = [fdiv (fadd h l) (Fin 2)]"
      using loop_body_windows(2)[OF b] ch st(2) a assms(4) by simp
    have c: "filt_change_count si' = 1"
      using loop_body_windows(3)[OF b] ch st(3) by simp
    from m w c show ?thesis by blast
  qed
  from si' ne mean first show ?thesis by blast
qed

theorem seed_counts_as_change_witness:
  "\<not> isl (run av_cfg gap_frame) \<and> (0::nat) < length (index gap_frame) \<and>
   av_vals av_cfg \<and> 0 < av_samples av_cfg \<and>
   filt_change_values (projr (run_loop av_cfg gap_frame (Suc (Suc 0)) (Suc 0))) = [Fin 100] \<and>
   filt_change_count (projr (run_loop av_cfg gap_frame (Suc (Suc 0)) (Suc 0))) = 1 \<and>
   filt (fst (projr (run av_cfg gap_frame))) ! 0 = np_mean [Fin 100]"
proof -
  have r: "run av_cfg gap_frame
      = Inr (fst (projr (run av_cfg gap_frame)), snd (projr (run av_cfg gap_frame)))"
    using av_run(1) by (cases "run av_cfg gap_frame") simp_all
  have i: "(0::nat) < length (index gap_frame)"
    by (simp add: gap_frame_def mk_frame_def)
  have c: "av_vals av_cfg" "0 < av_samples av_cfg"
    by (simp_all add: av_cfg_def ex_cfg_def)
  have m: "filt (fst (projr (run av_cfg gap_frame))) ! 0 = np_mean [Fin 100]"
    by (simp add: av_run(2) np_mean_def)
  from seed_counts_as_change [OF r i c] av_run i c m show ?thesis
    by (simp del: run_loop.simps)
qed

section \<open>Unknown range scales\<close>

lemma has_prices_reset_index: "has_prices (reset_index data) = has_prices data"
  by (simp add: has_prices_def reset_index_def cong: option.case_cong column.case_cong)

lemma length_index_reset_index: "length (index (reset_index data)) = length (index data)"
  by (simp add: reset_index_def)

lemma rng_size_unknown_scale:
  assumes "rng_scale cfg \<notin> set [''Pips'', ''Points'', ''% of Price'', ''ATR'',
     ''Average Change'', ''Standard Deviation'', ''Ticks'']"
  shows "rng_size cfg data x i pac patr psd acl sdl
     = rng_size (cfg\<lparr>rng_scale := ''Absolute''\<rparr>) data x i pac patr psd acl sdl"
  using assms by (simp add: rng_size_def)

lemma movement_source_scale:
  "movement_source (cfg\<lparr>rng_scale := v\<rparr>) data i = movement_source cfg data i"
  by (simp add: movement_source_def)

lemma rng_filt_scale:
  "rng_filt (cfg\<lparr>rng_scale := v\<rparr>) h l rsv i rfp prs fcc fcv
     = rng_filt cfg h l rsv i rfp prs fcc fcv"
  by (simp add: rng_filt_def Let_def cong: if_cong)

lemma loop_body_unknown_scale:
  assumes "rng_scale cfg \<notin> set [''Pips'', ''Points'', ''% of Price'', ''ATR'',
     ''Average Change'', ''Standard Deviation'', ''Ticks'']"
  shows "loop_body cfg data i s = loop_body (cfg\<lparr>rng_scale := ''Absolute''\<rparr>) data i s"
  by (simp only: loop_body_def rng_size_unknown_scale[OF assms] movement_source_scale
      rng_filt_scale)

lemma run_loop_unknown_scale:
  assumes "rng_scale cfg \<notin> set [''Pips'', ''Points'', ''% of Price'', ''ATR'',
     ''Average Change'', ''Standard Deviation'', ''Ticks'']"
  shows "run_loop cfg data n k = run_loop (cfg\<lparr>rng_scale := ''Absolute''\<rparr>) data n k"
proof (induction k)
  case 0
  show ?case by simp
next
  case (Suc k)
  have "loop_body cfg data k = loop_body (cfg\<lparr>rng_scale := ''Absolute''\<rparr>) data k"
    using loop_body_unknown_scale[OF assms] by blast
  with Suc show ?case by simp
qed

lemmas frame_defs = RangeFilter_run_def reset_index_def one_frame_def nan_frame_def
  inf_frame_def empty_frame_def

lemma bogus_run:
  "\<not> isl (RangeFilter_run (ex_cfg\<lparr>rng_scale := ''Bogus''\<rparr>) one_frame)"
  "filt (fst (projr (RangeFilter_run (ex_cfg\<lparr>rng_scale := ''Bogus''\<rparr>) one_frame)))
     = [Fin 100]"
  "h_band (fst (projr (RangeFilter_run (ex_cfg\<lparr>rng_scale := ''Bogus''\<rparr>) one_frame)))
     = [Fin 101]"
  by (simp_all add: model_defs frame_defs)

text \<open>
  Claim C6 says that a \<open>rng_scale\<close> outside the eight scale names makes the program
  fail with a configuration error before any bar is processed. It does not: with the
  scale \<open>'Bogus'\<close> the constructor and \<open>run\<close> return, and the band of the only bar is
  the filter value plus \<open>rng_qty\<close>.
\<close>

theorem unknown_scale_runs_counterexample:
  "\<not> isl (RangeFilter_run (ex_cfg\<lparr>rng_scale := ''Bogus''\<rparr>) one_frame) \<and>
   rng_scale (ex_cfg\<lparr>rng_scale := ''Bogus''\<rparr>) \<notin> set [''Points'', ''Pips'', ''Ticks'',
      ''% of Price'', ''ATR'', ''Average Change'', ''Standard Deviation'', ''Absolute''] \<and>
   h_band (fst (projr (RangeFilter_run (ex_cfg\<lparr>rng_scale := ''Bogus''\<rparr>) one_frame)))
     = [Fin 101]"
  using bogus_run by simp

text \<open>
  Claim C6 as amended. No run on a frame with numeric price columns raises an error,
  whatever the scale string, when the two periods are not -1; and a \<open>rng_scale\<close> that
  is none of the seven strings \<open>rng_size\<close> tests for takes the last branch, the one of
  \<open>'Absolute'\<close>: the run gives what it gives with \<open>rng_scale = 'Absolute'\<close>.
\<close>

theorem unknown_scale_is_absolute:
  "(has_prices data \<and> rng_per cfg \<noteq> - 1 \<and> smooth_per cfg \<noteq> - 1 \<longrightarrow>
      \<not> isl (RangeFilter_run cfg data)) \<and>
   (rng_scale cfg \<notin> set [''Pips'', ''Points'', ''% of Price'', ''ATR'', ''Average Change'',
       ''Standard Deviation'', ''Ticks''] \<longrightarrow>
      RangeFilter_run cfg data = RangeFilter_run (cfg\<lparr>rng_scale := ''Absolute''\<rparr>) data)"
proof (intro conjI impI)
  assume "has_prices data \<and> rng_per cfg \<noteq> - 1 \<and> smooth_per cfg \<noteq> - 1"
  then show "\<not> isl (RangeFilter_run cfg data)"
    unfolding RangeFilter_run_def
    by (intro run_ok) (simp_all add: has_prices_reset_index)
next
  assume "rng_scale cfg \<notin> set [''Pips'', ''Points'', ''% of Price'', ''ATR'',
     ''Average Change'', ''Standard Deviation'', ''Ticks'']"
  from run_loop_unknown_scale[OF this]
  show "RangeFilter_run cfg data = RangeFilter_run (cfg\<lparr>rng_scale := ''Absolute''\<rparr>) data"
    by (simp add: RangeFilter_run_def run_def)
qed

theorem unknown_scale_is_absolute_witness:
  "has_prices one_frame \<and> rng_per (ex_cfg\<lparr>rng_scale := ''Bogus''\<rparr>) \<noteq> - 1 \<and>
   smooth_per (ex_cfg\<lparr>rng_scale := ''Bogus''\<rparr>) \<noteq> - 1 \<and>
   rng_scale (ex_cfg\<lparr>rng_scale := ''Bogus''\<rparr>) \<notin> set [''Pips'', ''Points'', ''% of Price'',
      ''ATR'', ''Average Change'', ''Standard Deviation'', ''Ticks''] \<and>
   \<not> isl (RangeFilter_run (ex_cfg\<lparr>rng_scale := ''Bogus''\<rparr>) one_frame) \<and>
   RangeFilter_run (ex_cfg\<lparr>rng_scale := ''Bogus''\<rparr>) one_frame
     = RangeFilter_run (ex_cfg\<lparr>rng_scale := ''Bogus'', rng_scale := ''Absolute''\<rparr>) one_frame"
proof -
  have d: "has_prices one_frame"
    by (simp add: has_prices_def one_frame_def mk_frame_def)
  have c: "rng_per (ex_cfg\<lparr>rng_scale := ''Bogus''\<rparr>) \<noteq> - 1"
    "smooth_per (ex_cfg\<lparr>rng_scale := ''Bogus''\<rparr>) \<noteq> - 1"
    "rng_scale (ex_cfg\<lparr>rng_scale := ''Bogus''\<rparr>) \<notin> set [''Pips'', ''Points'', ''% of Price'',
      ''ATR'', ''Average Change'', ''Standard Deviation'', ''Ticks'']"
    by (simp_all add: ex_cfg_def)
  from unknown_scale_is_absolute [of one_frame "ex_cfg\<lparr>rng_scale := ''Bogus''\<rparr>"] d c
  show ?thesis
    by blast
qed

section \<open>Inputs that are not checked\<close>

lemma special_runs:
  "\<not> isl (RangeFilter_run ex_cfg empty_frame)"
  "filt (fst (projr (RangeFilter_run ex_cfg empty_frame))) = []"
  "\<not> isl (RangeFilter_run ex_cfg nan_frame)"
  "filt (fst (projr (RangeFilter_run ex_cfg nan_frame))) = [NaN]"
  "\<not> isl (RangeFilter_run ex_cfg inf_frame)"
  "filt (fst (projr (RangeFilter_run ex_cfg inf_frame))) = [PInf]"
  by (simp_all add: model_defs frame_defs)

text \<open>
  Claim C7 says that a run on an empty input, and a run on an input with a NaN or
  infinite price, aborts with an input error. It does not: on the frame without rows the
  constructor and \<open>run\<close> return with empty result arrays, on a frame whose only
  \<open>high\<close> is NaN they return with the filter value NaN, and on a frame whose only
  \<open>high\<close> is infinite they return with an infinite filter value.
\<close>

theorem no_input_error_counterexample:
  "length (index empty_frame) = 0 \<and>
   \<not> isl (RangeFilter_run ex_cfg empty_frame) \<and>
   filt (fst (projr (RangeFilter_run ex_cfg empty_frame))) = [] \<and>
   iloc nan_frame ''high'' 0 = Inr NaN \<and>
   \<not> isl (RangeFilter_run ex_cfg nan_frame) \<and>
   filt (fst (projr (RangeFilter_run ex_cfg nan_frame))) = [NaN] \<and>
   iloc inf_frame ''high'' 0 = Inr PInf \<and>
   \<not> isl (RangeFilter_run ex_cfg inf_frame) \<and>
   filt (fst (projr (RangeFilter_run ex_cfg inf_frame))) = [PInf]"
  using special_runs
  by (simp add: empty_frame_def nan_frame_def inf_frame_def mk_frame_def iloc_def)

text \<open>
  Claim C7 as amended. A run on an empty input, and a run on a frame whose price columns
  hold numbers, NaN or infinities (with periods other than -1), does not abort: it
  returns without error and fills one entry of each result array per input row. Nothing
  in the program checks its input.
\<close>

theorem run_completes:
  assumes "length (index data) = 0 \<or>
     has_prices data \<and> rng_per cfg \<noteq> - 1 \<and> smooth_per cfg \<noteq> - 1"
  shows "\<exists>s data'. RangeFilter_run cfg data = Inr (s, data') \<and>
     length (filt s) = length (index data) \<and> length (h_band s) = length (index data) \<and>
     length (l_band s) = length (index data) \<and> length (fdir s) = length (index data) \<and>
     length (upward s) = length (index data) \<and> length (downward s) = length (index data)"
proof -
  let ?d = "reset_index data"
  have "\<not> isl (run cfg ?d)"
    using assms run_empty[of ?d cfg] run_ok[of ?d cfg]
    by (auto simp: has_prices_reset_index length_index_reset_index)
  then obtain s data' where r: "run cfg ?d = Inr (s, data')"
    by (metis not_isl_Inr surj_pair)
  from run_loop_lengths[OF run_Inr[OF r]] r show ?thesis
    by (simp add: RangeFilter_run_def length_index_reset_index)
qed

theorem run_completes_witness:
  "(length (index inf_frame) = 0 \<or>
      has_prices inf_frame \<and> rng_per ex_cfg \<noteq> - 1 \<and> smooth_per ex_cfg \<noteq> - 1) \<and>
   iloc inf_frame ''high'' 0 = Inr PInf \<and>
   \<not> isl (RangeFilter_run ex_cfg inf_frame) \<and>
   length (filt (fst (projr (RangeFilter_run ex_cfg inf_frame)))) = length (index inf_frame)"
proof -
  have h: "length (index inf_frame) = 0 \<or>
      has_prices inf_frame \<and> rng_per ex_cfg \<noteq> - 1 \<and> smooth_per ex_cfg \<noteq> - 1"
    by (simp add: has_prices_def inf_frame_def mk_frame_def ex_cfg_def)
  have v: "iloc inf_frame ''high'' 0 = Inr PInf"
    by (simp add: inf_frame_def mk_frame_def iloc_def)
  from run_completes [OF h] obtain s data' where
    "RangeFilter_run ex_cfg inf_frame = Inr (s, data')"
    "length (filt s) = length (index inf_frame)" by blast
  with h v show ?thesis by simp
qed

section \<open>The caller's frame\<close>

lemma one_frame_run:
  "\<not> isl (RangeFilter_run ex_cfg one_frame)"
  "cols (snd (projr (RangeFilter_run ex_cfg one_frame))) ''high'' = Some (NumCol [Fin 101])"
  "cols (snd (projr (RangeFilter_run ex_cfg one_frame))) ''filt'' = Some (NumCol [Fin 100])"
  by (simp_all add: model_defs frame_defs)

text \<open>
  Claim C8. The constructor keeps the caller's frame and \<open>run\<close> stores its nine result
  columns in it, but the columns \<open>open\<close>, \<open>high\<close>, \<open>low\<close> and \<open>close\<close> of the
  frame are after the run what they were before it.
\<close>

theorem price_columns_unchanged:
  assumes "RangeFilter_run cfg data = Inr (s, data')"
  shows "cols data' ''open'' = cols data ''open'' \<and> cols data' ''high'' = cols data ''high'' \<and>
         cols data' ''low'' = cols data ''low'' \<and> cols data' ''close'' = cols data ''close''"
  using assms
  by (auto simp: RangeFilter_run_def run_def Let_def bind_err_eq_Inr setitem_def
      reset_index_def)

theorem price_columns_unchanged_witness:
  "\<not> isl (RangeFilter_run ex_cfg one_frame) \<and>
   cols (snd (projr (RangeFilter_run ex_cfg one_frame))) ''high'' = cols one_frame ''high'' \<and>
   cols one_frame ''high'' = Some (NumCol [Fin 101]) \<and>
   cols (snd (projr (RangeFilter_run ex_cfg one_frame))) ''filt'' = Some (NumCol [Fin 100])"
proof -
  have r: "RangeFilter_run ex_cfg one_frame
      = Inr (fst (projr (RangeFilter_run ex_cfg one_frame)),
             snd (projr (RangeFilter_run ex_cfg one_frame)))"
    using one_frame_run(1) by (cases "RangeFilter_run ex_cfg one_frame") simp_all
  have c: "cols one_frame ''high'' = Some (NumCol [Fin 101])"
    by (simp add: one_frame_def mk_frame_def)
  from price_columns_unchanged [OF r] one_frame_run c show ?thesis
    by simp
qed

end
